theory Spec2Isabelle
  imports Main "HOL-Library.Sublist"
begin

section \<open>Devices of the simulator (isim/device.py)\<close>

subsection \<open>Data model\<close>

text \<open>
  The three exception classes of \<^verbatim>\<open>isim/device.py\<close>. An exception that is raised carries
  its class and the message string it was constructed with.
\<close>

datatype exception_class = MultipleMatchesException | DeviceNotFoundError | InvalidDeviceError

datatype exn = Exn (exn_class: exception_class) (exn_message: string)

text \<open>
  The fields of class \<^verbatim>\<open>Device\<close> that the operations below read. \<^verbatim>\<open>raw_info\<close> (the
  dictionary the four string fields are copied from) and the cache \<^verbatim>\<open>_runtime\<close> are read
  by none of them and are left out.
\<close>

record device =
  runtime_name :: string
  state :: string
  availability :: string
  name :: string
  udid :: string

text \<open>
  \<^verbatim>\<open>isim.runtime.Runtime\<close>: \<^verbatim>\<open>from_name\<close> reads its attribute \<^verbatim>\<open>name\<close> only (called
  \<open>r_name\<close> here, since \<open>name\<close> is the device's field).
\<close>

record runtime =
  r_name :: string

text \<open>
  The value of \<^verbatim>\<open>list_all()\<close>, a \<^verbatim>\<open>Dict[str, List[Device]]\<close>, as the list of its items in
  iteration (insertion) order: runtime name, then the devices of that runtime.
\<close>

type_synonym inventory = "(string \<times> device list) list"

text \<open>The simctl output for one device: the keys \<^verbatim>\<open>_update_info\<close> reads.\<close>

record device_info =
  info_state :: string
  info_availability :: string
  info_name :: string
  info_udid :: string

text \<open>\<^verbatim>\<open>Device.__init__\<close> with \<^verbatim>\<open>_update_info\<close>.\<close>

definition Device :: "device_info \<Rightarrow> string \<Rightarrow> device" where
  "Device info rt_name =
     \<lparr>runtime_name = rt_name, state = info_state info, availability = info_availability info,
      name = info_name info, udid = info_udid info\<rparr>"

text \<open>
  \<^verbatim>\<open>from_simctl_info\<close>: one entry per key of \<^verbatim>\<open>info\<close>, every device constructed with that
  key as its \<^verbatim>\<open>runtime_name\<close>. \<^verbatim>\<open>list_all\<close> applies it to the raw listing.
\<close>

definition from_simctl_info :: "(string \<times> device_info list) list \<Rightarrow> inventory" where
  "from_simctl_info info =
     map (\<lambda>(rt_name, runtime_devices_info).
            (rt_name, map (\<lambda>info. Device info rt_name) runtime_devices_info)) info"

definition list_all :: "(string \<times> device_info list) list \<Rightarrow> inventory" where
  "list_all raw_info = from_simctl_info raw_info"

subsection \<open>Substring test\<close>

text \<open>
  Python's \<^verbatim>\<open>sub in s\<close> on strings: \<open>sub\<close> occurs in \<open>s\<close> as a contiguous block,
  case-sensitively. Both markers are ASCII, so the test on bytes agrees with the test on
  code points.
\<close>

fun str_contains :: "string \<Rightarrow> string \<Rightarrow> bool" where
  "str_contains sub [] = (sub = [])"
| "str_contains sub (c # cs) = (prefix sub (c # cs) \<or> str_contains sub cs)"

subsection \<open>\<^verbatim>\<open>Device.pair\<close>\<close>

text \<open>The tests of lines 135/138 and of lines 141/144.\<close>

definition contains_iOS :: "device \<Rightarrow> bool" where
  "contains_iOS d = str_contains ''iOS'' (runtime_name d)"

definition contains_watchOS :: "device \<Rightarrow> bool" where
  "contains_watchOS d = str_contains ''watchOS'' (runtime_name d)"

text \<open>
  The locals \<^verbatim>\<open>(watch, phone)\<close> of \<^verbatim>\<open>pair\<close> when line 147 is reached: both start as
  \<^verbatim>\<open>None\<close>, then the four assignments run in the order of the source.
\<close>

definition pair_roles :: "device \<Rightarrow> device \<Rightarrow> device option \<times> device option" where
  "pair_roles self other_device =
     (let watch0 = None;
          phone0 = None;
          phone1 = (if contains_iOS self then Some self else phone0);
          phone2 = (if contains_iOS other_device then Some other_device else phone1);
          watch1 = (if contains_watchOS self then Some self else watch0);
          watch2 = (if contains_watchOS other_device then Some other_device else watch1)
      in (watch2, phone2))"

text \<open>
  \<^verbatim>\<open>pair\<close>. The downstream call \<^verbatim>\<open>isim.pair_devices(watch, phone)\<close> is a parameter: it
  takes the watch, the phone and the state \<open>w\<close> of the outside world, and gives its result
  (the pair identifier, or an exception of its own) and the new state. When \<^verbatim>\<open>pair\<close>
  raises, the world is as it was: nothing was called.
\<close>

definition pair ::
  "(device \<Rightarrow> device \<Rightarrow> 'w \<Rightarrow> (exn + string) \<times> 'w) \<Rightarrow> device \<Rightarrow> device \<Rightarrow> 'w
     \<Rightarrow> (exn + string) \<times> 'w" where
  "pair pair_devices self other_device w =
     (case pair_roles self other_device of
        (watch, phone) \<Rightarrow>
          if watch = None \<or> phone = None
          then (Inl (Exn InvalidDeviceError
                  ''One device should be a watch and the other a phone''), w)
          else pair_devices (the watch) (the phone) w)"

subsection \<open>\<^verbatim>\<open>from_identifier\<close>\<close>

text \<open>The inner loop: the first device of the list with the udid, if any.\<close>

fun find_udid :: "string \<Rightarrow> device list \<Rightarrow> device option" where
  "find_udid identifier [] = None"
| "find_udid identifier (d # devices) =
     (if udid d = identifier then Some d else find_udid identifier devices)"

text \<open>The outer loop over the items of the inventory; a hit in the inner loop returns.\<close>

fun scan_udid :: "string \<Rightarrow> inventory \<Rightarrow> device option" where
  "scan_udid identifier [] = None"
| "scan_udid identifier ((rt_name, devices) # items) =
     (case find_udid identifier devices of
        Some d \<Rightarrow> Some d
      | None \<Rightarrow> scan_udid identifier items)"

definition from_identifier :: "inventory \<Rightarrow> string \<Rightarrow> exn + device" where
  "from_identifier all_devices identifier =
     (case scan_udid identifier all_devices of
        Some d \<Rightarrow> Inr d
      | None \<Rightarrow> Inl (Exn DeviceNotFoundError (''No device with ID: '' @ identifier)))"

subsection \<open>\<^verbatim>\<open>from_name\<close>\<close>

text \<open>
  Lines 190 to 195: the inner loop appends \<open>(device, rt_name)\<close> for every device of the
  runtime with the requested name; the outer loop runs over the items of the inventory.
\<close>

fun collect_runtime ::
  "string \<Rightarrow> string \<Rightarrow> device list \<Rightarrow> (device \<times> string) list \<Rightarrow> (device \<times> string) list" where
  "collect_runtime nm rt_name [] acc = acc"
| "collect_runtime nm rt_name (d # runtime_devices) acc =
     collect_runtime nm rt_name runtime_devices
       (if name d = nm then acc @ [(d, rt_name)] else acc)"

fun collect_all ::
  "string \<Rightarrow> inventory \<Rightarrow> (device \<times> string) list \<Rightarrow> (device \<times> string) list" where
  "collect_all nm [] acc = acc"
| "collect_all nm ((rt_name, runtime_devices) # items) acc =
     collect_all nm items (collect_runtime nm rt_name runtime_devices acc)"

definition matching_name_devices :: "inventory \<Rightarrow> string \<Rightarrow> (device \<times> string) list" where
  "matching_name_devices all_devices nm = collect_all nm all_devices []"

text \<open>
  \<^verbatim>\<open>from_name\<close>: \<open>Inr None\<close> is the return value \<^verbatim>\<open>None\<close>, \<open>Inr (Some d)\<close> a device,
  \<open>Inl e\<close> a raised exception. The optional argument \<^verbatim>\<open>runtime\<close> is an \<open>option\<close>.
\<close>

definition from_name :: "inventory \<Rightarrow> string \<Rightarrow> runtime option \<Rightarrow> exn + device option" where
  "from_name all_devices nm rt =
     (let matching = matching_name_devices all_devices nm in
      if matching = [] then Inr None
      else if length matching = 1 then Inr (Some (fst (matching ! 0)))
      else (case rt of
              None \<Rightarrow> Inl (Exn MultipleMatchesException
                         ''Multiple device matches, but no runtime supplied'')
            | Some r \<Rightarrow>
                (let matching_devices = filter (\<lambda>dv. snd dv = r_name r) matching in
                 if matching_devices = [] then Inr None
                 else if length matching_devices > 1
                 then Inl (Exn MultipleMatchesException
                        ''Multiple device matches even with runtime supplied'')
                 else Inr (Some (fst (matching_devices ! 0))))))"

subsection \<open>The inventory as a list of entries\<close>

text \<open>
  Every device of the inventory with the key it is stored under, in iteration order
  (runtime-major, then the order of the runtime's list), and the entries with a given name.
\<close>

definition inventory_entries :: "inventory \<Rightarrow> (device \<times> string) list" where
  "inventory_entries all_devices =
     concat (map (\<lambda>(rt_name, devices). map (\<lambda>d. (d, rt_name)) devices) all_devices)"

definition entries_named :: "inventory \<Rightarrow> string \<Rightarrow> (device \<times> string) list" where
  "entries_named all_devices nm = filter (\<lambda>dv. name (fst dv) = nm) (inventory_entries all_devices)"

definition inventory_devices :: "inventory \<Rightarrow> device list" where
  "inventory_devices all_devices = concat (map snd all_devices)"

subsection \<open>Example data\<close>

text \<open>A device with the given name, udid and runtime, shut down and available.\<close>

definition ex_device :: "string \<Rightarrow> string \<Rightarrow> string \<Rightarrow> device" where
  "ex_device nm u rt =
     \<lparr>runtime_name = rt, state = ''Shutdown'', availability = ''(available)'',
      name = nm, udid = u\<rparr>"

text \<open>
  An inventory with the name \<open>iPhone X\<close> in two runtimes, and one where the runtime
  \<open>iOS 12.1\<close> itself holds that name twice.
\<close>

definition ex_inventory :: inventory where
  "ex_inventory =
     [(''iOS 12.1'', [ex_device ''iPhone X'' ''U1'' ''iOS 12.1'',
                      ex_device ''iPad Air'' ''U2'' ''iOS 12.1'']),
      (''iOS 11.4'', [ex_device ''iPhone X'' ''U3'' ''iOS 11.4'']),
      (''watchOS 5.0'', [ex_device ''Watch 42mm'' ''U4'' ''watchOS 5.0''])]"

definition ex_inventory_dup :: inventory where
  "ex_inventory_dup =
     [(''iOS 12.1'', [ex_device ''iPhone X'' ''U1'' ''iOS 12.1'',
                      ex_device ''iPhone X'' ''U2'' ''iOS 12.1'']),
      (''iOS 11.4'', [ex_device ''iPhone X'' ''U3'' ''iOS 11.4''])]"

lemmas ex_defs =
  ex_device_def ex_inventory_def ex_inventory_dup_def
  inventory_devices_def inventory_entries_def entries_named_def

text \<open>
  A stand-in for \<^verbatim>\<open>isim.pair_devices\<close> whose world is the list of the calls made so far:
  it appends its arguments (watch, phone) and returns a pair identifier.
\<close>

definition ex_pair_devices ::
  "device \<Rightarrow> device \<Rightarrow> (device \<times> device) list \<Rightarrow> (exn + string) \<times> (device \<times> device) list" where
  "ex_pair_devices watch phone calls = (Inr ''PAIR-1'', calls @ [(watch, phone)])"

lemmas ex_pair_defs =
  ex_device_def ex_pair_devices_def contains_iOS_def contains_watchOS_def

section \<open>Properties\<close>

subsection \<open>Helper lemmas\<close>

lemma collect_runtime_filter:
  "collect_runtime nm rt_name ds acc =
     acc @ filter (\<lambda>dv. name (fst dv) = nm) (map (\<lambda>d. (d, rt_name)) ds)"
  by (induction ds arbitrary: acc) simp_all

lemma collect_all_filter:
  "collect_all nm devs acc = acc @ entries_named devs nm"
proof (induction devs arbitrary: acc)
  case Nil
  show ?case by (simp add: entries_named_def inventory_entries_def)
next
  case (Cons item devs)
  obtain rt_name ds where item: "item = (rt_name, ds)" by (cases item)
  have "collect_all nm (item # devs) acc
          = collect_runtime nm rt_name ds acc @ entries_named devs nm"
    using Cons.IH by (simp add: item)
  then show ?case
    by (simp add: item collect_runtime_filter entries_named_def inventory_entries_def)
qed

lemma matching_name_devices_entries:
  "matching_name_devices devs nm = entries_named devs nm"
  by (simp add: matching_name_devices_def collect_all_filter)

text \<open>
  In an inventory built by \<open>list_all\<close>, the key a device is stored under is its
  \<open>runtime_name\<close>.
\<close>

lemma list_all_runtime_name:
  "(d, key) \<in> set (inventory_entries (list_all raw_info)) \<Longrightarrow> runtime_name d = key"
  by (auto simp: inventory_entries_def list_all_def from_simctl_info_def Device_def)

lemma map_fst_entries_named:
  "map fst (entries_named devs nm) = filter (\<lambda>d. name d = nm) (inventory_devices devs)"
proof -
  have "map fst (inventory_entries devs) = inventory_devices devs"
    unfolding inventory_entries_def inventory_devices_def
    by (induction devs) (auto simp: comp_def)
  moreover have "filter (\<lambda>d. name d = nm) (map fst (inventory_entries devs))
      = map fst (filter (\<lambda>dv. name (fst dv) = nm) (inventory_entries devs))"
    by (simp add: filter_map comp_def)
  ultimately show ?thesis
    by (simp add: entries_named_def)
qed

lemma find_app:
  "find P (xs @ ys) = (case find P xs of Some x \<Rightarrow> Some x | None \<Rightarrow> find P ys)"
  by (induction xs) simp_all

lemma find_udid_find: "find_udid i ds = find (\<lambda>d. udid d = i) ds"
  by (induction ds) simp_all

lemma scan_udid_find: "scan_udid i devs = find (\<lambda>d. udid d = i) (inventory_devices devs)"
proof (induction devs)
  case Nil
  show ?case by (simp add: inventory_devices_def)
next
  case (Cons item devs)
  obtain rt_name ds where item: "item = (rt_name, ds)" by (cases item)
  have split: "inventory_devices ((rt_name, ds) # devs) = ds @ inventory_devices devs"
    by (simp add: inventory_devices_def)
  show ?case
    using Cons.IH by (simp add: item split find_udid_find find_app split: option.splits)
qed

lemma find_Some_mem: "find P xs = Some x \<Longrightarrow> x \<in> set xs \<and> P x"
  by (induction xs) (auto split: if_splits)

lemma find_first_hit:
  "(\<exists>x \<in> set xs. P x) \<Longrightarrow> \<exists>x. find P xs = Some x"
  by (induction xs) auto

lemma str_contains_sublist: "str_contains sub s = sublist sub s"
  by (induction s) (auto simp: sublist_Cons_right)

lemma str_contains_iff: "str_contains sub s \<longleftrightarrow> (\<exists>ps ss. s = ps @ sub @ ss)"
  by (simp add: str_contains_sublist sublist_def)

lemma overlap_head:
  assumes "xs @ s1 = us @ y # t" and "length us < length xs"
  shows "y \<in> set xs"
proof -
  have "(xs @ s1) ! length us = y"
    using assms(1) by simp
  moreover have "(xs @ s1) ! length us = xs ! length us"
    using assms(2) by (simp add: nth_append)
  ultimately show ?thesis
    using assms(2) nth_mem by metis
qed

lemma prefix_split:
  assumes "xs @ s1 = us @ t" and "length xs \<le> length us"
  shows "\<exists>b. us = xs @ b"
  using assms by (auto simp: append_eq_append_conv2)

lemma both_markers_separate:
  assumes i: "s = p1 @ ''iOS'' @ s1" and w: "s = p2 @ ''watchOS'' @ s2"
  shows "\<exists>a b c. s = a @ ''iOS'' @ b @ ''watchOS'' @ c \<or> s = a @ ''watchOS'' @ b @ ''iOS'' @ c"
proof -
  from i w have "p1 @ ''iOS'' @ s1 = p2 @ ''watchOS'' @ s2" by simp
  then obtain us where
    "(p1 = p2 @ us \<and> us @ ''iOS'' @ s1 = ''watchOS'' @ s2)
      \<or> (p1 @ us = p2 \<and> ''iOS'' @ s1 = us @ ''watchOS'' @ s2)"
    unfolding append_eq_append_conv2 by blast
  then show ?thesis
  proof
    assume A: "p1 = p2 @ us \<and> us @ ''iOS'' @ s1 = ''watchOS'' @ s2"
    then have eq: "''watchOS'' @ s2 = us @ CHR ''i'' # (''OS'' @ s1)" by simp
    have "\<not> length us < length ''watchOS''"
      using overlap_head [OF eq] by auto
    then have "length ''watchOS'' \<le> length us" by simp
    from prefix_split [OF eq this] obtain b where "us = ''watchOS'' @ b" by blast
    with A i have "s = p2 @ ''watchOS'' @ b @ ''iOS'' @ s1" by simp
    then show ?thesis by blast
  next
    assume B: "p1 @ us = p2 \<and> ''iOS'' @ s1 = us @ ''watchOS'' @ s2"
    then have eq: "''iOS'' @ s1 = us @ CHR ''w'' # (''atchOS'' @ s2)" by simp
    have "\<not> length us < length ''iOS''"
      using overlap_head [OF eq] by auto
    then have "length ''iOS'' \<le> length us" by simp
    from prefix_split [OF eq this] obtain b where "us = ''iOS'' @ b" by blast
    with B w have "s = p1 @ ''iOS'' @ b @ ''watchOS'' @ s2" by auto
    then show ?thesis by blast
  qed
qed

subsection \<open>Resolution by name\<close>

text \<open>
  C6. When no device of the inventory has the requested name (the devices with that name
  are the empty list), \<open>from_name\<close> returns \<open>None\<close> (no device) and raises nothing,
  whatever the optional runtime filter is.
\<close>

theorem from_name_zero_matches:
  assumes "filter (\<lambda>d. name d = nm) (inventory_devices devs) = []"
  shows "from_name devs nm rt = Inr None"
proof -
  have "map fst (entries_named devs nm) = []"
    using assms by (simp add: map_fst_entries_named)
  then have "matching_name_devices devs nm = []"
    by (simp add: matching_name_devices_entries)
  then show ?thesis
    by (simp add: from_name_def)
qed

theorem from_name_zero_matches_witness:
  "filter (\<lambda>d. name d = ''Apple TV'') (inventory_devices ex_inventory) = []
   \<and> from_name ex_inventory ''Apple TV'' None = Inr None
   \<and> from_name ex_inventory ''Apple TV'' (Some \<lparr>r_name = ''iOS 12.1''\<rparr>) = Inr None"
proof -
  have h: "filter (\<lambda>d. name d = ''Apple TV'') (inventory_devices ex_inventory) = []"
    by (simp add: ex_defs)
  show ?thesis
    using h from_name_zero_matches [OF h, of None]
      from_name_zero_matches [OF h, of "Some \<lparr>r_name = ''iOS 12.1''\<rparr>"]
    by (intro conjI)
qed

text \<open>
  C5. When exactly one device of the inventory has the requested name, \<open>from_name\<close>
  returns it for every value of the optional runtime filter: absent, the device's own
  runtime, or a runtime that no device has.
\<close>

theorem from_name_unique_match:
  assumes "filter (\<lambda>d. name d = nm) (inventory_devices devs) = [d]"
  shows "from_name devs nm rt = Inr (Some d)"
proof -
  have "map fst (matching_name_devices devs nm) = [d]"
    using assms by (simp add: matching_name_devices_entries map_fst_entries_named)
  then obtain key where "matching_name_devices devs nm = [(d, key)]"
    by (cases "matching_name_devices devs nm") auto
  then show ?thesis
    by (simp add: from_name_def)
qed

theorem from_name_unique_match_witness:
  "filter (\<lambda>d. name d = ''iPad Air'') (inventory_devices ex_inventory)
     = [ex_device ''iPad Air'' ''U2'' ''iOS 12.1'']
   \<and> from_name ex_inventory ''iPad Air'' None
     = Inr (Some (ex_device ''iPad Air'' ''U2'' ''iOS 12.1''))
   \<and> from_name ex_inventory ''iPad Air'' (Some \<lparr>r_name = ''tvOS 12.0''\<rparr>)
     = Inr (Some (ex_device ''iPad Air'' ''U2'' ''iOS 12.1''))"
proof -
  have h: "filter (\<lambda>d. name d = ''iPad Air'') (inventory_devices ex_inventory)
             = [ex_device ''iPad Air'' ''U2'' ''iOS 12.1'']"
    by (simp add: ex_defs)
  show ?thesis
    using h from_name_unique_match [OF h, of None]
      from_name_unique_match [OF h, of "Some \<lparr>r_name = ''tvOS 12.0''\<rparr>"]
    by (intro conjI)
qed

text \<open>
  C4. When exactly two devices have the requested name, stored under two different
  runtimes \<open>R1\<close> and \<open>R2\<close>: without a filter \<open>from_name\<close> raises
  \<open>MultipleMatchesException\<close> with the message of the no-filter case; with a filter whose
  name is \<open>R1\<close> (or \<open>R2\<close>) it returns the device of that runtime; with a filter whose name
  is neither it returns \<open>None\<close>. The filter is compared by equality of the whole runtime
  name: a filter that is only a substring of \<open>R1\<close> gives \<open>None\<close>.
\<close>

theorem from_name_two_runtimes:
  assumes "entries_named devs nm = [(d1, R1), (d2, R2)]" and "R1 \<noteq> R2"
  shows "from_name devs nm None
           = Inl (Exn MultipleMatchesException
                   ''Multiple device matches, but no runtime supplied'')
       \<and> (r_name r = R1 \<longrightarrow> from_name devs nm (Some r) = Inr (Some d1))
       \<and> (r_name r = R2 \<longrightarrow> from_name devs nm (Some r) = Inr (Some d2))
       \<and> (r_name r \<noteq> R1 \<and> r_name r \<noteq> R2 \<longrightarrow> from_name devs nm (Some r) = Inr None)"
  using assms by (simp add: from_name_def matching_name_devices_entries)

theorem from_name_two_runtimes_witness:
  "entries_named ex_inventory ''iPhone X''
     = [(ex_device ''iPhone X'' ''U1'' ''iOS 12.1'', ''iOS 12.1''),
        (ex_device ''iPhone X'' ''U3'' ''iOS 11.4'', ''iOS 11.4'')]
   \<and> ''iOS 12.1'' \<noteq> ''iOS 11.4''
   \<and> from_name ex_inventory ''iPhone X'' None
       = Inl (Exn MultipleMatchesException
               ''Multiple device matches, but no runtime supplied'')
   \<and> from_name ex_inventory ''iPhone X'' (Some \<lparr>r_name = ''iOS 12.1''\<rparr>)
       = Inr (Some (ex_device ''iPhone X'' ''U1'' ''iOS 12.1''))
   \<and> from_name ex_inventory ''iPhone X'' (Some \<lparr>r_name = ''iOS 11.4''\<rparr>)
       = Inr (Some (ex_device ''iPhone X'' ''U3'' ''iOS 11.4''))
   \<and> from_name ex_inventory ''iPhone X'' (Some \<lparr>r_name = ''iOS''\<rparr>) = Inr None"
proof -
  have h: "entries_named ex_inventory ''iPhone X''
     = [(ex_device ''iPhone X'' ''U1'' ''iOS 12.1'', ''iOS 12.1''),
        (ex_device ''iPhone X'' ''U3'' ''iOS 11.4'', ''iOS 11.4'')]"
    by (simp add: ex_defs)
  have n: "''iOS 12.1'' \<noteq> ''iOS 11.4''"
    by simp
  show ?thesis
    using h n
      from_name_two_runtimes [OF h n, of "\<lparr>r_name = ''iOS 12.1''\<rparr>"]
      from_name_two_runtimes [OF h n, of "\<lparr>r_name = ''iOS 11.4''\<rparr>"]
      from_name_two_runtimes [OF h n, of "\<lparr>r_name = ''iOS''\<rparr>"]
    by simp
qed

text \<open>
  C2, as the code has it. Both ambiguity failures are raised with the one class
  \<open>MultipleMatchesException\<close>: more than one name match and no filter gives the message
  of the no-filter case, more than one match left by the filter gives the message of the
  filter case. The class is the same; the two message strings differ.
\<close>

theorem from_name_ambiguity_one_class:
  "(1 < length (entries_named devs nm) \<longrightarrow>
      from_name devs nm None
        = Inl (Exn MultipleMatchesException
                ''Multiple device matches, but no runtime supplied''))
   \<and> (1 < length (filter (\<lambda>dv. snd dv = r_name r) (entries_named devs nm)) \<longrightarrow>
      from_name devs nm (Some r)
        = Inl (Exn MultipleMatchesException
                ''Multiple device matches even with runtime supplied''))
   \<and> ''Multiple device matches, but no runtime supplied''
       \<noteq> ''Multiple device matches even with runtime supplied''"
proof (intro conjI impI)
  assume "1 < length (entries_named devs nm)"
  then show "from_name devs nm None
        = Inl (Exn MultipleMatchesException
                ''Multiple device matches, but no runtime supplied'')"
    by (auto simp add: from_name_def matching_name_devices_entries Let_def)
next
  assume many: "1 < length (filter (\<lambda>dv. snd dv = r_name r) (entries_named devs nm))"
  have "1 < length (entries_named devs nm)"
    by (rule less_le_trans [OF many length_filter_le])
  with many show "from_name devs nm (Some r)
        = Inl (Exn MultipleMatchesException
                ''Multiple device matches even with runtime supplied'')"
    by (auto simp add: from_name_def matching_name_devices_entries Let_def)
next
  show "''Multiple device matches, but no runtime supplied''
       \<noteq> ''Multiple device matches even with runtime supplied''"
    by simp
qed

theorem from_name_ambiguity_one_class_witness:
  "1 < length (entries_named ex_inventory_dup ''iPhone X'')
   \<and> 1 < length (filter (\<lambda>dv. snd dv = r_name \<lparr>r_name = ''iOS 12.1''\<rparr>)
                  (entries_named ex_inventory_dup ''iPhone X''))
   \<and> from_name ex_inventory_dup ''iPhone X'' None
       = Inl (Exn MultipleMatchesException
               ''Multiple device matches, but no runtime supplied'')
   \<and> from_name ex_inventory_dup ''iPhone X'' (Some \<lparr>r_name = ''iOS 12.1''\<rparr>)
       = Inl (Exn MultipleMatchesException
               ''Multiple device matches even with runtime supplied'')"
proof -
  have a: "1 < length (entries_named ex_inventory_dup ''iPhone X'')"
    by (simp add: ex_defs)
  have b: "1 < length (filter (\<lambda>dv. snd dv = r_name \<lparr>r_name = ''iOS 12.1''\<rparr>)
                  (entries_named ex_inventory_dup ''iPhone X''))"
    by (simp add: ex_defs)
  show ?thesis
    using a b
      from_name_ambiguity_one_class
        [of ex_inventory_dup "''iPhone X''" "\<lparr>r_name = ''iOS 12.1''\<rparr>"]
    by blast
qed

text \<open>
  C2, as stated, fails: on an inventory with three devices of one name, two of them in
  one runtime, the failure without a filter and the failure with that runtime as the
  filter are both raised, and their classes are equal.
\<close>

theorem from_name_ambiguity_kinds_counterexample:
  "isl (from_name ex_inventory_dup ''iPhone X'' None)
   \<and> isl (from_name ex_inventory_dup ''iPhone X'' (Some \<lparr>r_name = ''iOS 12.1''\<rparr>))
   \<and> exn_class (projl (from_name ex_inventory_dup ''iPhone X'' None))
       = exn_class (projl (from_name ex_inventory_dup ''iPhone X''
                             (Some \<lparr>r_name = ''iOS 12.1''\<rparr>)))"
  by (simp add: from_name_def matching_name_devices_def ex_defs)

subsection \<open>Lookup by identifier\<close>

text \<open>
  C9. \<open>from_identifier\<close> raises \<open>DeviceNotFoundError\<close> exactly when no device of the
  inventory has the requested udid; when some device has it, the result is a device of the
  inventory with that udid, whatever the names of the devices are. When the udid is
  unique in the inventory, that is the one device with it.
\<close>

theorem from_identifier_found_or_error:
  "(from_identifier devs i = Inl (Exn DeviceNotFoundError (''No device with ID: '' @ i))
      \<longleftrightarrow> (\<forall>d \<in> set (inventory_devices devs). udid d \<noteq> i))
   \<and> ((\<exists>d \<in> set (inventory_devices devs). udid d = i)
      \<longrightarrow> (\<exists>d \<in> set (inventory_devices devs). udid d = i \<and> from_identifier devs i = Inr d))
   \<and> (d0 \<in> set (inventory_devices devs) \<and> udid d0 = i
        \<and> (\<forall>d \<in> set (inventory_devices devs). udid d = i \<longrightarrow> d = d0)
      \<longrightarrow> from_identifier devs i = Inr d0)"
proof -
  let ?ds = "inventory_devices devs"
  let ?hit = "find (\<lambda>d. udid d = i) ?ds"
  have res: "from_identifier devs i
      = (case ?hit of Some d \<Rightarrow> Inr d
         | None \<Rightarrow> Inl (Exn DeviceNotFoundError (''No device with ID: '' @ i)))"
    by (simp add: from_identifier_def scan_udid_find)
  have absent: "?hit = None \<longleftrightarrow> (\<forall>d \<in> set ?ds. udid d \<noteq> i)"
    by (auto simp: find_None_iff)
  have c1: "from_identifier devs i = Inl (Exn DeviceNotFoundError (''No device with ID: '' @ i))
      \<longleftrightarrow> (\<forall>d \<in> set ?ds. udid d \<noteq> i)"
    unfolding res absent [symmetric] by (simp split: option.splits)
  have c2: "(\<exists>d \<in> set ?ds. udid d = i)
      \<longrightarrow> (\<exists>d \<in> set ?ds. udid d = i \<and> from_identifier devs i = Inr d)"
  proof
    assume "\<exists>d \<in> set ?ds. udid d = i"
    then obtain d where hit: "?hit = Some d"
      using find_first_hit [of ?ds "\<lambda>d. udid d = i"] by blast
    then have "d \<in> set ?ds \<and> udid d = i"
      by (rule find_Some_mem)
    moreover have "from_identifier devs i = Inr d"
      by (simp add: res hit)
    ultimately show "\<exists>d \<in> set ?ds. udid d = i \<and> from_identifier devs i = Inr d"
      by blast
  qed
  have c3: "d0 \<in> set ?ds \<and> udid d0 = i \<and> (\<forall>d \<in> set ?ds. udid d = i \<longrightarrow> d = d0)
      \<longrightarrow> from_identifier devs i = Inr d0"
    using c2 by blast
  show ?thesis
    using c1 c2 c3 by (intro conjI)
qed

theorem from_identifier_found_or_error_witness:
  "from_identifier ex_inventory_dup ''U3'' = Inr (ex_device ''iPhone X'' ''U3'' ''iOS 11.4'')
   \<and> from_identifier ex_inventory_dup ''U9''
       = Inl (Exn DeviceNotFoundError ''No device with ID: U9'')"
proof -
  have mem: "ex_device ''iPhone X'' ''U3'' ''iOS 11.4'' \<in> set (inventory_devices ex_inventory_dup)
      \<and> udid (ex_device ''iPhone X'' ''U3'' ''iOS 11.4'') = ''U3''
      \<and> (\<forall>d \<in> set (inventory_devices ex_inventory_dup).
            udid d = ''U3'' \<longrightarrow> d = ex_device ''iPhone X'' ''U3'' ''iOS 11.4'')"
    by (simp add: ex_defs)
  have none: "\<forall>d \<in> set (inventory_devices ex_inventory_dup). udid d \<noteq> ''U9''"
    by (simp add: ex_defs)
  have found: "from_identifier ex_inventory_dup ''U3'' = Inr (ex_device ''iPhone X'' ''U3'' ''iOS 11.4'')"
    using mem from_identifier_found_or_error
      [of ex_inventory_dup "''U3''" "ex_device ''iPhone X'' ''U3'' ''iOS 11.4''"]
    by blast
  have missing: "from_identifier ex_inventory_dup ''U9''
       = Inl (Exn DeviceNotFoundError (''No device with ID: '' @ ''U9''))"
    using none from_identifier_found_or_error [of ex_inventory_dup "''U9''"]
    by blast
  show ?thesis
    using found missing by simp
qed

subsection \<open>Pairing roles\<close>

text \<open>
  C3, as the code has it. The two substring tests are independent, so every combination
  occurs: a device may be phone-capable, watch-capable, neither, or both. It is both
  exactly when its runtime name holds the two markers at separate positions, in either
  order (the markers cannot overlap).
\<close>

theorem both_roles_iff:
  "(contains_iOS d \<and> contains_watchOS d \<longleftrightarrow>
     (\<exists>a b c. runtime_name d = a @ ''iOS'' @ b @ ''watchOS'' @ c
             \<or> runtime_name d = a @ ''watchOS'' @ b @ ''iOS'' @ c))
   \<and> (\<forall>ph wa. \<exists>d'. contains_iOS d' = ph \<and> contains_watchOS d' = wa)"
proof
  show "contains_iOS d \<and> contains_watchOS d \<longleftrightarrow>
     (\<exists>a b c. runtime_name d = a @ ''iOS'' @ b @ ''watchOS'' @ c
             \<or> runtime_name d = a @ ''watchOS'' @ b @ ''iOS'' @ c)"
  proof
    assume "contains_iOS d \<and> contains_watchOS d"
    then obtain p1 s1 p2 s2 where
      "runtime_name d = p1 @ ''iOS'' @ s1" "runtime_name d = p2 @ ''watchOS'' @ s2"
      unfolding contains_iOS_def contains_watchOS_def str_contains_iff by blast
    then show "\<exists>a b c. runtime_name d = a @ ''iOS'' @ b @ ''watchOS'' @ c
               \<or> runtime_name d = a @ ''watchOS'' @ b @ ''iOS'' @ c"
      by (rule both_markers_separate)
  next
    assume "\<exists>a b c. runtime_name d = a @ ''iOS'' @ b @ ''watchOS'' @ c
               \<or> runtime_name d = a @ ''watchOS'' @ b @ ''iOS'' @ c"
    then obtain a b c where
      "runtime_name d = a @ ''iOS'' @ b @ ''watchOS'' @ c
        \<or> runtime_name d = a @ ''watchOS'' @ b @ ''iOS'' @ c" by blast
    then show "contains_iOS d \<and> contains_watchOS d"
    proof
      assume r: "runtime_name d = a @ ''iOS'' @ b @ ''watchOS'' @ c"
      then have "runtime_name d = (a @ ''iOS'' @ b) @ ''watchOS'' @ c" by simp
      with r show ?thesis
        unfolding contains_iOS_def contains_watchOS_def str_contains_iff by blast
    next
      assume r: "runtime_name d = a @ ''watchOS'' @ b @ ''iOS'' @ c"
      then have "runtime_name d = (a @ ''watchOS'' @ b) @ ''iOS'' @ c" by simp
      with r show ?thesis
        unfolding contains_iOS_def contains_watchOS_def str_contains_iff by blast
    qed
  qed
next
  have both: "\<exists>d'. contains_iOS d' = True \<and> contains_watchOS d' = True"
    by (rule exI [of _ "ex_device ''Odd'' ''U6'' ''iOS-watchOS''"]) (simp add: ex_pair_defs)
  have phone: "\<exists>d'. contains_iOS d' = True \<and> contains_watchOS d' = False"
    by (rule exI [of _ "ex_device ''iPhone X'' ''U1'' ''iOS 12.1''"]) (simp add: ex_pair_defs)
  have watch: "\<exists>d'. contains_iOS d' = False \<and> contains_watchOS d' = True"
    by (rule exI [of _ "ex_device ''Watch 42mm'' ''U4'' ''watchOS 5.0''"])
      (simp add: ex_pair_defs)
  have neither: "\<exists>d'. contains_iOS d' = False \<and> contains_watchOS d' = False"
    by (rule exI [of _ "ex_device ''Apple TV'' ''U7'' ''tvOS 12.0''"]) (simp add: ex_pair_defs)
  show "\<forall>ph wa. \<exists>d'. contains_iOS d' = ph \<and> contains_watchOS d' = wa"
  proof (intro allI)
    fix ph wa
    show "\<exists>d'. contains_iOS d' = ph \<and> contains_watchOS d' = wa"
      using both phone watch neither by (cases ph; cases wa) simp_all
  qed
qed

text \<open>
  C3, as stated, fails: a device whose runtime name is \<open>iOS-watchOS\<close> passes both tests.
\<close>

theorem both_roles_counterexample:
  "contains_iOS (ex_device ''Odd'' ''U6'' ''iOS-watchOS'')
   \<and> contains_watchOS (ex_device ''Odd'' ''U6'' ''iOS-watchOS'')"
  by (simp add: ex_pair_defs)

subsection \<open>Pairing\<close>

text \<open>
  C7. One device whose runtime name contains \<open>iOS\<close> and not \<open>watchOS\<close>, the other
  \<open>watchOS\<close> and not \<open>iOS\<close>: in either order of receiver and argument the watch role
  goes to the watchOS device and the phone role to the iOS device, \<open>pair\<close> does not raise,
  and its result is that of the downstream call with the watch first and the phone second.
\<close>

theorem pair_phone_and_watch:
  assumes "contains_iOS p" and "\<not> contains_watchOS p"
    and "contains_watchOS wt" and "\<not> contains_iOS wt"
  shows "pair_roles p wt = (Some wt, Some p)
       \<and> pair_roles wt p = (Some wt, Some p)
       \<and> pair pair_devices p wt w = pair_devices wt p w
       \<and> pair pair_devices wt p w = pair_devices wt p w"
  using assms by (simp add: pair_def pair_roles_def)

theorem pair_phone_and_watch_witness:
  "contains_iOS (ex_device ''iPhone X'' ''U1'' ''iOS 12.1'')
   \<and> \<not> contains_watchOS (ex_device ''iPhone X'' ''U1'' ''iOS 12.1'')
   \<and> contains_watchOS (ex_device ''Watch 42mm'' ''U4'' ''watchOS 5.0'')
   \<and> \<not> contains_iOS (ex_device ''Watch 42mm'' ''U4'' ''watchOS 5.0'')
   \<and> pair ex_pair_devices (ex_device ''iPhone X'' ''U1'' ''iOS 12.1'')
        (ex_device ''Watch 42mm'' ''U4'' ''watchOS 5.0'') []
       = (Inr ''PAIR-1'', [(ex_device ''Watch 42mm'' ''U4'' ''watchOS 5.0'',
                            ex_device ''iPhone X'' ''U1'' ''iOS 12.1'')])
   \<and> pair ex_pair_devices (ex_device ''Watch 42mm'' ''U4'' ''watchOS 5.0'')
        (ex_device ''iPhone X'' ''U1'' ''iOS 12.1'') []
       = (Inr ''PAIR-1'', [(ex_device ''Watch 42mm'' ''U4'' ''watchOS 5.0'',
                            ex_device ''iPhone X'' ''U1'' ''iOS 12.1'')])"
proof -
  let ?p = "ex_device ''iPhone X'' ''U1'' ''iOS 12.1''"
  let ?wt = "ex_device ''Watch 42mm'' ''U4'' ''watchOS 5.0''"
  have h1: "contains_iOS ?p" by (simp add: ex_pair_defs)
  have h2: "\<not> contains_watchOS ?p" by (simp add: ex_pair_defs)
  have h3: "contains_watchOS ?wt" by (simp add: ex_pair_defs)
  have h4: "\<not> contains_iOS ?wt" by (simp add: ex_pair_defs)
  have call: "ex_pair_devices ?wt ?p [] = (Inr ''PAIR-1'', [(?wt, ?p)])"
    by (simp add: ex_pair_devices_def)
  show ?thesis
    using h1 h2 h3 h4 call
      pair_phone_and_watch [OF h1 h2 h3 h4, of ex_pair_devices "[]"]
    by simp
qed

text \<open>
  C8. The watch role is unassigned after the four assignments exactly when neither runtime
  name contains \<open>watchOS\<close>, the phone role exactly when neither contains \<open>iOS\<close>. When
  either role is unassigned, \<open>pair\<close> raises \<open>InvalidDeviceError\<close> and the downstream call
  is not made: the world it would act on is returned as it was.
\<close>

theorem pair_unassigned_role_raises:
  "(fst (pair_roles a b) = None \<longleftrightarrow> \<not> contains_watchOS a \<and> \<not> contains_watchOS b)
   \<and> (snd (pair_roles a b) = None \<longleftrightarrow> \<not> contains_iOS a \<and> \<not> contains_iOS b)
   \<and> (fst (pair_roles a b) = None \<or> snd (pair_roles a b) = None \<longrightarrow>
        pair pair_devices a b w
          = (Inl (Exn InvalidDeviceError
                   ''One device should be a watch and the other a phone''), w))"
  by (auto simp add: pair_def pair_roles_def split: prod.splits)

theorem pair_unassigned_role_raises_witness:
  "contains_iOS (ex_device ''iPhone X'' ''U1'' ''iOS 12.1'')
   \<and> \<not> contains_watchOS (ex_device ''iPhone X'' ''U1'' ''iOS 12.1'')
   \<and> contains_iOS (ex_device ''iPhone 8'' ''U5'' ''iOS 11.4'')
   \<and> \<not> contains_watchOS (ex_device ''iPhone 8'' ''U5'' ''iOS 11.4'')
   \<and> fst (pair_roles (ex_device ''iPhone X'' ''U1'' ''iOS 12.1'')
            (ex_device ''iPhone 8'' ''U5'' ''iOS 11.4'')) = None
   \<and> pair ex_pair_devices (ex_device ''iPhone X'' ''U1'' ''iOS 12.1'')
        (ex_device ''iPhone 8'' ''U5'' ''iOS 11.4'') []
       = (Inl (Exn InvalidDeviceError
                ''One device should be a watch and the other a phone''), [])"
proof -
  let ?a = "ex_device ''iPhone X'' ''U1'' ''iOS 12.1''"
  let ?b = "ex_device ''iPhone 8'' ''U5'' ''iOS 11.4''"
  have h1: "contains_iOS ?a" by (simp add: ex_pair_defs)
  have h2: "\<not> contains_watchOS ?a" by (simp add: ex_pair_defs)
  have h3: "contains_iOS ?b" by (simp add: ex_pair_defs)
  have h4: "\<not> contains_watchOS ?b" by (simp add: ex_pair_defs)
  have none: "fst (pair_roles ?a ?b) = None"
    using h2 h4 pair_unassigned_role_raises [of ?a ?b ex_pair_devices "[]"] by blast
  have raised: "pair ex_pair_devices ?a ?b []
       = (Inl (Exn InvalidDeviceError
                ''One device should be a watch and the other a phone''), [])"
    using none pair_unassigned_role_raises [of ?a ?b ex_pair_devices "[]"] by blast
  show ?thesis
    using h1 h2 h3 h4 none raised by (intro conjI)
qed

text \<open>
  C10. One device whose runtime name contains both markers, the other neither: in either
  order both roles go to the dual-marker device, the other device gets no role,
  \<open>pair\<close> does not raise \<open>InvalidDeviceError\<close>, and its result is that of the downstream
  call with the dual-marker device as the watch and as the phone.
\<close>

theorem pair_dual_with_markerless:
  assumes "contains_iOS d" and "contains_watchOS d"
    and "\<not> contains_iOS n" and "\<not> contains_watchOS n"
  shows "pair_roles d n = (Some d, Some d)
       \<and> pair_roles n d = (Some d, Some d)
       \<and> pair pair_devices d n w = pair_devices d d w
       \<and> pair pair_devices n d w = pair_devices d d w"
  using assms by (simp add: pair_def pair_roles_def)

theorem pair_dual_with_markerless_witness:
  "contains_iOS (ex_device ''Odd'' ''U6'' ''iOS-watchOS'')
   \<and> contains_watchOS (ex_device ''Odd'' ''U6'' ''iOS-watchOS'')
   \<and> \<not> contains_iOS (ex_device ''Apple TV'' ''U7'' ''tvOS 12.0'')
   \<and> \<not> contains_watchOS (ex_device ''Apple TV'' ''U7'' ''tvOS 12.0'')
   \<and> pair ex_pair_devices (ex_device ''Odd'' ''U6'' ''iOS-watchOS'')
        (ex_device ''Apple TV'' ''U7'' ''tvOS 12.0'') []
       = (Inr ''PAIR-1'', [(ex_device ''Odd'' ''U6'' ''iOS-watchOS'',
                            ex_device ''Odd'' ''U6'' ''iOS-watchOS'')])
   \<and> pair ex_pair_devices (ex_device ''Apple TV'' ''U7'' ''tvOS 12.0'')
        (ex_device ''Odd'' ''U6'' ''iOS-watchOS'') []
       = (Inr ''PAIR-1'', [(ex_device ''Odd'' ''U6'' ''iOS-watchOS'',
                            ex_device ''Odd'' ''U6'' ''iOS-watchOS'')])"
proof -
  let ?d = "ex_device ''Odd'' ''U6'' ''iOS-watchOS''"
  let ?n = "ex_device ''Apple TV'' ''U7'' ''tvOS 12.0''"
  have h1: "contains_iOS ?d" by (simp add: ex_pair_defs)
  have h2: "contains_watchOS ?d" by (simp add: ex_pair_defs)
  have h3: "\<not> contains_iOS ?n" by (simp add: ex_pair_defs)
  have h4: "\<not> contains_watchOS ?n" by (simp add: ex_pair_defs)
  have call: "ex_pair_devices ?d ?d [] = (Inr ''PAIR-1'', [(?d, ?d)])"
    by (simp add: ex_pair_devices_def)
  show ?thesis
    using h1 h2 h3 h4 call
      pair_dual_with_markerless [OF h1 h2 h3 h4, of ex_pair_devices "[]"]
    by simp
qed

text \<open>
  C1, as the code has it. One device whose runtime name contains both markers, the other
  \<open>iOS\<close> only: \<open>pair\<close> does not raise, and the dual-marker device is the watch in either
  order. The phone is the argument of \<open>pair\<close>, since both names contain \<open>iOS\<close> and the
  assignment for the argument comes last: the iOS-only device when the dual-marker device
  is the receiver, the dual-marker device itself when the iOS-only device is the receiver.
\<close>

theorem pair_dual_with_phone:
  assumes "contains_iOS d" and "contains_watchOS d"
    and "contains_iOS p" and "\<not> contains_watchOS p"
  shows "pair_roles d p = (Some d, Some p)
       \<and> pair pair_devices d p w = pair_devices d p w
       \<and> pair_roles p d = (Some d, Some d)
       \<and> pair pair_devices p d w = pair_devices d d w"
  using assms by (simp add: pair_def pair_roles_def)

theorem pair_dual_with_phone_witness:
  "contains_iOS (ex_device ''Odd'' ''U6'' ''iOS-watchOS'')
   \<and> contains_watchOS (ex_device ''Odd'' ''U6'' ''iOS-watchOS'')
   \<and> contains_iOS (ex_device ''iPhone X'' ''U1'' ''iOS 12.1'')
   \<and> \<not> contains_watchOS (ex_device ''iPhone X'' ''U1'' ''iOS 12.1'')
   \<and> pair ex_pair_devices (ex_device ''Odd'' ''U6'' ''iOS-watchOS'')
        (ex_device ''iPhone X'' ''U1'' ''iOS 12.1'') []
       = (Inr ''PAIR-1'', [(ex_device ''Odd'' ''U6'' ''iOS-watchOS'',
                            ex_device ''iPhone X'' ''U1'' ''iOS 12.1'')])
   \<and> pair ex_pair_devices (ex_device ''iPhone X'' ''U1'' ''iOS 12.1'')
        (ex_device ''Odd'' ''U6'' ''iOS-watchOS'') []
       = (Inr ''PAIR-1'', [(ex_device ''Odd'' ''U6'' ''iOS-watchOS'',
                            ex_device ''Odd'' ''U6'' ''iOS-watchOS'')])"
proof -
  let ?d = "ex_device ''Odd'' ''U6'' ''iOS-watchOS''"
  let ?p = "ex_device ''iPhone X'' ''U1'' ''iOS 12.1''"
  have h1: "contains_iOS ?d" by (simp add: ex_pair_defs)
  have h2: "contains_watchOS ?d" by (simp add: ex_pair_defs)
  have h3: "contains_iOS ?p" by (simp add: ex_pair_defs)
  have h4: "\<not> contains_watchOS ?p" by (simp add: ex_pair_defs)
  have call1: "ex_pair_devices ?d ?p [] = (Inr ''PAIR-1'', [(?d, ?p)])"
    by (simp add: ex_pair_devices_def)
  have call2: "ex_pair_devices ?d ?d [] = (Inr ''PAIR-1'', [(?d, ?d)])"
    by (simp add: ex_pair_devices_def)
  show ?thesis
    using h1 h2 h3 h4 call1 call2
      pair_dual_with_phone [OF h1 h2 h3 h4, of ex_pair_devices "[]"]
    by simp
qed

text \<open>
  C1, as stated, fails when the iOS-only device is the receiver and the dual-marker device
  the argument: the phone role is then not the iOS-only device, and the downstream call
  gets the dual-marker device twice.
\<close>

theorem pair_dual_with_phone_counterexample:
  "contains_iOS (ex_device ''Odd'' ''U6'' ''iOS-watchOS'')
   \<and> contains_watchOS (ex_device ''Odd'' ''U6'' ''iOS-watchOS'')
   \<and> contains_iOS (ex_device ''iPhone X'' ''U1'' ''iOS 12.1'')
   \<and> \<not> contains_watchOS (ex_device ''iPhone X'' ''U1'' ''iOS 12.1'')
   \<and> snd (pair_roles (ex_device ''iPhone X'' ''U1'' ''iOS 12.1'')
            (ex_device ''Odd'' ''U6'' ''iOS-watchOS''))
       \<noteq> Some (ex_device ''iPhone X'' ''U1'' ''iOS 12.1'')
   \<and> pair ex_pair_devices (ex_device ''iPhone X'' ''U1'' ''iOS 12.1'')
        (ex_device ''Odd'' ''U6'' ''iOS-watchOS'') []
       = (Inr ''PAIR-1'', [(ex_device ''Odd'' ''U6'' ''iOS-watchOS'',
                            ex_device ''Odd'' ''U6'' ''iOS-watchOS'')])"
  by (simp add: pair_def pair_roles_def ex_pair_defs)

end
